theory Spec2Isabelle
  imports Complex_Main
begin

section \<open>The project-extents editing panel of the display test application\<close>

text \<open>
  A shallow embedding of \<^verbatim>\<open>ProjectExtentsEditingExample.ts\<close>. JavaScript numbers are
  modelled as real numbers (no rounding, no NaN, no infinities), strings as \<open>string\<close>,
  \<open>undefined\<close> as \<open>None\<close>. Every asynchronous handler is modelled as running to completion:
  the interleaving of two handlers at their \<^verbatim>\<open>await\<close> points is not part of the model, and
  the awaited calls of the viewer library are taken to succeed.
\<close>

subsection \<open>Geometry values\<close>

type_synonym Id64String = string

text \<open>
  Modelled from the spec: the geometry library's \<^verbatim>\<open>Vector3d\<close> (a 3D displacement) is not
  part of the source file. \<open>create\<close>, \<open>clone\<close>, \<open>negate\<close> and \<open>magnitude\<close> have their usual
  meaning on the three coordinates.
\<close>

record Vector3d =
  vec_x :: real
  vec_y :: real
  vec_z :: real

definition create :: "real \<Rightarrow> real \<Rightarrow> real \<Rightarrow> Vector3d" where
  "create a b c = \<lparr>vec_x = a, vec_y = b, vec_z = c\<rparr>"

definition clone :: "Vector3d \<Rightarrow> Vector3d" where
  "clone v = create (vec_x v) (vec_y v) (vec_z v)"

definition negate :: "Vector3d \<Rightarrow> Vector3d" where
  "negate v = create (- vec_x v) (- vec_y v) (- vec_z v)"

definition magnitude :: "Vector3d \<Rightarrow> real" where
  "magnitude v = sqrt (vec_x v * vec_x v + vec_y v * vec_y v + vec_z v * vec_z v)"

text \<open>
  Modelled from the spec: the geometry library's \<^verbatim>\<open>Range3d\<close> is not part of the source
  file, and the source reads nothing of a range but its three lengths. A range is therefore
  given by the values its \<^verbatim>\<open>xLength()\<close>, \<^verbatim>\<open>yLength()\<close> and \<^verbatim>\<open>zLength()\<close> return; no sign
  is assumed of them.
\<close>

record Range3d =
  xLength :: real
  yLength :: real
  zLength :: real

text \<open>
  Modelled from the spec: \<^verbatim>\<open>Transform.createTranslation\<close> of the geometry library, a
  transform that is a pure translation by the given vector.
\<close>

datatype Transform = Translation Vector3d

definition createTranslation :: "Vector3d \<Rightarrow> Transform" where
  "createTranslation v = Translation v"

subsection \<open>The offset (source lines 14 and 37 to 44)\<close>

definition defaultOffset :: Vector3d where
  "defaultOffset = create 50000 0 0"

text \<open>The local \<^verbatim>\<open>length\<close> of \<^verbatim>\<open>getRangeBasedOffset\<close>: \<^verbatim>\<open>Math.max\<close> of the three lengths.\<close>

definition maxLength :: "Range3d \<Rightarrow> real" where
  "maxLength extents = max (max (xLength extents) (yLength extents)) (zLength extents)"

definition getRangeBasedOffset :: "Range3d \<Rightarrow> Vector3d" where
  "getRangeBasedOffset extents =
     (let len = maxLength extents in
      if len \<le> 0 then clone defaultOffset
      else (let scale = max (len * 2) (magnitude defaultOffset) in create scale 0 0))"

subsection \<open>The external state: connection, query engine, view manager\<close>

text \<open>
  A value of a row's \<^verbatim>\<open>id\<close> property: the source only asks whether it is a string.
\<close>

datatype js_value = JsString string | JsOther

record row =
  row_id :: js_value

text \<open>
  The calls the panel makes into the viewer library, with their arguments, in the order
  they are made.
\<close>

datatype call =
    EnterEditingScope
  | ExitEditingScope
  | CreateQueryReader string "Id64String list"
  | TransformElements "string list" Transform
  | SaveChanges string
  | RefreshForModifiedModels "Id64String list"

text \<open>
  Modelled from the spec: the viewer library (the connection with its editing scope, the
  query engine, the geometry transform utility \<^verbatim>\<open>transformElements\<close> and the view manager)
  is not part of the source file. The external state holds what the panel observes of it:
  whether the viewport's iModel is a briefcase connection, whether an editing scope is
  active (\<^verbatim>\<open>imodel.editingScope\<close> is defined), the project extents, the geometric elements
  as pairs of their model's id and the row the query returns for them, the models of the
  view as pairs of id and optional name, and the log of the calls made so far.
\<close>

record external =
  isBriefcaseConnection :: bool
  editingScope :: bool
  projectExtents :: Range3d
  geometricElements :: "(Id64String \<times> row) list"
  viewModels :: "(Id64String \<times> string option) list"
  calls :: "call list"

text \<open>
  Modelled from the spec: entering an editing scope makes the scope active, exiting ends
  it; both succeed.
\<close>

definition enterEditingScope :: "external \<Rightarrow> external" where
  "enterEditingScope imodel =
     imodel\<lparr>editingScope := True, calls := calls imodel @ [EnterEditingScope]\<rparr>"

definition exitEditingScope :: "external \<Rightarrow> external" where
  "exitEditingScope imodel =
     imodel\<lparr>editingScope := False, calls := calls imodel @ [ExitEditingScope]\<rparr>"

text \<open>
  Modelled from the spec: the query engine runs the statement of the source,
  \<^verbatim>\<open>SELECT ECInstanceId FROM bis.GeometricElement3d WHERE Model.Id=? LIMIT 50\<close>, and yields
  the rows of the elements of the bound model, at most 50 of them.
\<close>

definition sampleQuery :: string where
  "sampleQuery = ''SELECT ECInstanceId FROM bis.GeometricElement3d WHERE Model.Id=? LIMIT 50''"

definition createQueryReader :: "external \<Rightarrow> string \<Rightarrow> Id64String list \<Rightarrow> row list \<times> external" where
  "createQueryReader imodel ecsql bindings =
     (take 50 (map snd (filter (\<lambda>e. [fst e] = bindings) (geometricElements imodel))),
      imodel\<lparr>calls := calls imodel @ [CreateQueryReader ecsql bindings]\<rparr>)"

text \<open>
  Modelled from the spec: applying a transform, saving the changes and refreshing the
  tiles are effects inside the viewer library; the model records that they were requested.
\<close>

definition transformElements :: "external \<Rightarrow> string list \<Rightarrow> Transform \<Rightarrow> external" where
  "transformElements imodel ids transform =
     imodel\<lparr>calls := calls imodel @ [TransformElements ids transform]\<rparr>"

definition saveChanges :: "external \<Rightarrow> string \<Rightarrow> external" where
  "saveChanges imodel description = imodel\<lparr>calls := calls imodel @ [SaveChanges description]\<rparr>"

definition refreshForModifiedModels :: "external \<Rightarrow> Id64String list \<Rightarrow> external" where
  "refreshForModifiedModels w modelIds =
     w\<lparr>calls := calls w @ [RefreshForModifiedModels modelIds]\<rparr>"

subsection \<open>Sample elements (source lines 21 to 35)\<close>

text \<open>The \<^verbatim>\<open>for await\<close> loop: the ids of the rows whose \<^verbatim>\<open>id\<close> is a string, in order.\<close>

fun pushIds :: "string list \<Rightarrow> row list \<Rightarrow> string list" where
  "pushIds elementIds [] = elementIds"
| "pushIds elementIds (r # reader) =
     (case row_id r of
        JsString i \<Rightarrow> pushIds (elementIds @ [i]) reader
      | JsOther \<Rightarrow> pushIds elementIds reader)"

definition getSampleElementIds :: "external \<Rightarrow> Id64String \<Rightarrow> string list \<times> external" where
  "getSampleElementIds imodel modelId =
     (let (reader, imodel') = createQueryReader imodel sampleQuery [modelId]
      in (pushIds [] reader, imodel'))"

subsection \<open>The panel\<close>

text \<open>
  The model-selection list. Its behaviour is that of an HTML \<^verbatim>\<open>select\<close> element that
  shows one option: \<^verbatim>\<open>value\<close> is the value of the selected option, or the empty string
  when no option is selected; assigning \<^verbatim>\<open>value\<close> selects the first option with that value,
  or none; when an option is inserted and none is selected, the first option becomes
  selected; clearing \<^verbatim>\<open>innerHTML\<close> removes the options.
\<close>

record HTMLOptionElement =
  opt_value :: string
  opt_text :: string

record HTMLSelectElement =
  options :: "HTMLOptionElement list"
  selectedIndex :: "nat option"

definition select_value :: "HTMLSelectElement \<Rightarrow> string" where
  "select_value sel =
     (case selectedIndex sel of
        None \<Rightarrow> ''''
      | Some i \<Rightarrow> if i < length (options sel) then opt_value (options sel ! i) else '''')"

fun indexOfValue :: "string \<Rightarrow> HTMLOptionElement list \<Rightarrow> nat option" where
  "indexOfValue v [] = None"
| "indexOfValue v (opt # opts) =
     (if opt_value opt = v then Some 0 else map_option Suc (indexOfValue v opts))"

definition set_select_value :: "string \<Rightarrow> HTMLSelectElement \<Rightarrow> HTMLSelectElement" where
  "set_select_value v sel = sel\<lparr>selectedIndex := indexOfValue v (options sel)\<rparr>"

definition clearInnerHTML :: "HTMLSelectElement \<Rightarrow> HTMLSelectElement" where
  "clearInnerHTML sel = sel\<lparr>options := [], selectedIndex := None\<rparr>"

definition appendChild :: "HTMLSelectElement \<Rightarrow> HTMLOptionElement \<Rightarrow> HTMLSelectElement" where
  "appendChild sel opt =
     sel\<lparr>options := options sel @ [opt],
         selectedIndex := (case selectedIndex sel of None \<Rightarrow> Some 0 | Some i \<Rightarrow> Some i)\<rparr>"

text \<open>
  The fields of the class that the handlers read or write: the selection list, the text
  of the status line, the cached offset, and the \<^verbatim>\<open>display\<close> style of the panel's element.
\<close>

record ProjectExtentsEditingExample =
  modelSelect :: HTMLSelectElement
  status :: string
  lastOffset :: "Vector3d option"
  display :: string

record state =
  panel :: ProjectExtentsEditingExample
  world :: external

definition isOpen :: "state \<Rightarrow> bool" where
  "isOpen s = (''none'' \<noteq> display (panel s))"

definition open_panel :: "state \<Rightarrow> state" where
  "open_panel s = s\<lparr>panel := (panel s)\<lparr>display := ''block''\<rparr>\<rparr>"

definition close_panel :: "state \<Rightarrow> state" where
  "close_panel s = s\<lparr>panel := (panel s)\<lparr>display := ''none''\<rparr>\<rparr>"

definition setStatus :: "string \<Rightarrow> state \<Rightarrow> state" where
  "setStatus message s = s\<lparr>panel := (panel s)\<lparr>status := message\<rparr>\<rparr>"

definition getBriefcase :: "state \<Rightarrow> external option" where
  "getBriefcase s =
     (let imodel = world s in if isBriefcaseConnection imodel then Some imodel else None)"

text \<open>\<^verbatim>\<open>this._modelSelect.value || undefined\<close>: the empty string is falsy.\<close>

definition selectedModelId :: "state \<Rightarrow> Id64String option" where
  "selectedModelId s =
     (let v = select_value (modelSelect (panel s)) in if v \<noteq> '''' then Some v else None)"

text \<open>The body of the callback given to \<^verbatim>\<open>forEachModel\<close>.\<close>

definition addModelOption :: "HTMLSelectElement \<Rightarrow> Id64String \<times> string option \<Rightarrow> HTMLSelectElement" where
  "addModelOption sel model =
     appendChild sel
       \<lparr>opt_value = fst model,
        opt_text = (case snd model of Some name \<Rightarrow> name | None \<Rightarrow> fst model)\<rparr>"

definition populateModels :: "state \<Rightarrow> state" where
  "populateModels s =
     (let current = select_value (modelSelect (panel s));
          sel0 = clearInnerHTML (modelSelect (panel s));
          sel1 = foldl addModelOption sel0 (viewModels (world s));
          sel2 = (if current \<noteq> '''' then set_select_value current sel1 else sel1)
      in s\<lparr>panel := (panel s)\<lparr>modelSelect := sel2\<rparr>\<rparr>)"

definition onViewChanged :: "state \<Rightarrow> state" where
  "onViewChanged s = populateModels s"

subsection \<open>The handlers (source lines 156 to 227)\<close>

definition toggleEditingScope :: "state \<Rightarrow> state" where
  "toggleEditingScope s =
     (case getBriefcase s of
        None \<Rightarrow> setStatus ''Editing scope requires a writable briefcase.'' s
      | Some imodel \<Rightarrow>
          (let imodel' = (if editingScope imodel then exitEditingScope imodel
                          else enterEditingScope imodel)
           in setStatus
                (if editingScope imodel' then ''Editing scope is active.''
                 else ''Editing scope ended.'')
                (s\<lparr>world := imodel'\<rparr>)))"

definition getOffset :: "external \<Rightarrow> Vector3d" where
  "getOffset imodel = getRangeBasedOffset (projectExtents imodel)"

text \<open>
  \<^verbatim>\<open>!imodel || !modelId\<close>: the connection is undefined, or the model id is undefined or
  the empty string.
\<close>

definition moveSample :: "bool \<Rightarrow> state \<Rightarrow> state" where
  "moveSample outside s =
     (let imodel = getBriefcase s; modelId = selectedModelId s in
      case (imodel, modelId) of
        (Some imodel0, Some m) \<Rightarrow>
          if m = '''' then setStatus ''Select a model and ensure the iModel is writable.'' s
          else
            (let imodel1 = (if \<not> editingScope imodel0 then enterEditingScope imodel0
                            else imodel0);
                 (ids, imodel2) = getSampleElementIds imodel1 m
             in if 0 = length ids
                then setStatus ''No geometric elements were found in the selected model.''
                       (s\<lparr>world := imodel2\<rparr>)
                else
                  (let offset = (case lastOffset (panel s) of
                                   Some v \<Rightarrow> v
                                 | None \<Rightarrow> getOffset imodel2);
                       translation = (if outside then offset else negate offset);
                       imodel3 = transformElements imodel2 ids (createTranslation translation)
                   in setStatus
                        (if outside
                         then ''Moved sample geometry beyond the project extents while editing.''
                         else ''Moved sample geometry back within the project extents without saving.'')
                        (s\<lparr>panel := (panel s)\<lparr>lastOffset := Some offset\<rparr>,
                           world := imodel3\<rparr>)))
      | _ \<Rightarrow> setStatus ''Select a model and ensure the iModel is writable.'' s)"

definition saveAndRefresh :: "state \<Rightarrow> state" where
  "saveAndRefresh s =
     (let imodel = getBriefcase s; modelId = selectedModelId s in
      case (imodel, modelId) of
        (Some imodel0, Some m) \<Rightarrow>
          if m = '''' then setStatus ''Select a model and ensure the iModel is writable.'' s
          else
            (let imodel1 = saveChanges imodel0 ''Project extents tile example'';
                 w = refreshForModifiedModels imodel1 [m]
             in setStatus
                  ''Saved the briefcase and refreshed tiles. Geometry outside project extents will stop requesting tiles.''
                  (s\<lparr>world := w\<rparr>))
      | _ \<Rightarrow> setStatus ''Select a model and ensure the iModel is writable.'' s)"

definition requestTiles :: "state \<Rightarrow> state" where
  "requestTiles s =
     (case selectedModelId s of
        Some m \<Rightarrow>
          if m = '''' then setStatus ''Select a model before requesting tiles.'' s
          else setStatus ''Requested tiles for the modified model without saving.''
                 (s\<lparr>world := refreshForModifiedModels (world s) [m]\<rparr>)
      | None \<Rightarrow> setStatus ''Select a model before requesting tiles.'' s)"

subsection \<open>Construction, buttons and events (source lines 52 to 126)\<close>

definition constructor :: "external \<Rightarrow> state" where
  "constructor w =
     (let s0 = \<lparr>panel = \<lparr>modelSelect = \<lparr>options = [], selectedIndex = None\<rparr>,
                          status = '''', lastOffset = None, display = ''block''\<rparr>,
                world = w\<rparr>;
          s1 = populateModels s0
      in setStatus ''Select a model to exercise tile requests against project extents.'' s1)"

text \<open>The five buttons, in the order the constructor creates them, and their handlers.\<close>

datatype button = EditingButton | MoveOutside | SaveButton | MoveBack | RequestTiles

fun handler :: "button \<Rightarrow> state \<Rightarrow> state" where
  "handler EditingButton s = toggleEditingScope s"
| "handler MoveOutside s = moveSample True s"
| "handler SaveButton s = saveAndRefresh s"
| "handler MoveBack s = moveSample False s"
| "handler RequestTiles s = requestTiles s"

text \<open>
  What can happen to a panel after its construction: a button is pressed, the view
  changes, the user picks an option of the selection list, the panel is opened or closed,
  or the environment changes the external state (the connection, the scope, the extents,
  the elements, the models of the view) in any way; the environment does not rewrite the
  log of the calls the panel has made.
\<close>

datatype event =
    Click button
  | ViewChanged
  | UserSelects nat
  | Open
  | Close
  | Environment external

fun step :: "state \<Rightarrow> event \<Rightarrow> state" where
  "step s (Click b) = handler b s"
| "step s ViewChanged = onViewChanged s"
| "step s (UserSelects i) =
     (if i < length (options (modelSelect (panel s)))
      then s\<lparr>panel := (panel s)\<lparr>modelSelect := (modelSelect (panel s))\<lparr>selectedIndex := Some i\<rparr>\<rparr>\<rparr>
      else s)"
| "step s Open = open_panel s"
| "step s Close = close_panel s"
| "step s (Environment w) = s\<lparr>world := w\<lparr>calls := calls (world s)\<rparr>\<rparr>"

definition run :: "state \<Rightarrow> event list \<Rightarrow> state" where
  "run s events = foldl step s events"

text \<open>
  The calls a handler has made, read off the log before and after it, and the
  translations among them.
\<close>

definition newCalls :: "state \<Rightarrow> state \<Rightarrow> call list" where
  "newCalls s s' = drop (length (calls (world s))) (calls (world s'))"

fun translationsOf :: "call list \<Rightarrow> Vector3d list" where
  "translationsOf [] = []"
| "translationsOf (TransformElements ids (Translation t) # cs) = t # translationsOf cs"
| "translationsOf (c # cs) = translationsOf cs"

text \<open>
  The identifiers the sample query yields on a connection, and the offset a call of
  \<^verbatim>\<open>moveSample\<close> uses (\<^verbatim>\<open>this._lastOffset ?? this.getOffset(imodel)\<close>).
\<close>

definition sampleIds :: "external \<Rightarrow> Id64String \<Rightarrow> string list" where
  "sampleIds imodel m = fst (getSampleElementIds imodel m)"

definition usedOffset :: "state \<Rightarrow> Vector3d" where
  "usedOffset s =
     (case lastOffset (panel s) of Some v \<Rightarrow> v | None \<Rightarrow> getOffset (world s))"

text \<open>A displacement along the x-axis: no component in y or z.\<close>

definition onXAxis :: "Vector3d \<Rightarrow> bool" where
  "onXAxis v = (vec_y v = 0 \<and> vec_z v = 0)"

subsection \<open>Examples\<close>

definition unitCube :: Range3d where
  "unitCube = \<lparr>xLength = 1, yLength = 1, zLength = 1\<rparr>"

definition emptyRange :: Range3d where
  "emptyRange = \<lparr>xLength = 0, yLength = 0, zLength = 0\<rparr>"

definition largeSite :: Range3d where
  "largeSite = \<lparr>xLength = 30000, yLength = 10, zLength = 5\<rparr>"

text \<open>
  A read-only connection whose view shows one model; a briefcase with three models in the
  view, of which the first has two elements, the second one element whose row has no
  string id, and the third none; and the same briefcase with no model in the view.
\<close>

definition readonlyWorld :: external where
  "readonlyWorld =
     \<lparr>isBriefcaseConnection = False, editingScope = False, projectExtents = unitCube,
      geometricElements = [(''0x1'', \<lparr>row_id = JsString ''0x20''\<rparr>)],
      viewModels = [(''0x1'', Some ''Site'')], calls = []\<rparr>"

definition briefcaseWorld :: external where
  "briefcaseWorld =
     \<lparr>isBriefcaseConnection = True, editingScope = False, projectExtents = largeSite,
      geometricElements =
        [(''0x1'', \<lparr>row_id = JsString ''0x20''\<rparr>), (''0x2'', \<lparr>row_id = JsOther\<rparr>),
         (''0x1'', \<lparr>row_id = JsString ''0x21''\<rparr>)],
      viewModels = [(''0x1'', Some ''Site''), (''0x2'', None), (''0x3'', Some ''Empty'')],
      calls = []\<rparr>"

definition emptyViewWorld :: external where
  "emptyViewWorld = briefcaseWorld\<lparr>viewModels := []\<rparr>"

definition shrunkWorld :: external where
  "shrunkWorld = briefcaseWorld\<lparr>editingScope := True, projectExtents := unitCube\<rparr>"

text \<open>
  Panels constructed on these: the third one with no option in its selection list, the
  fourth with the third model (the one without elements) picked by the user.
\<close>

definition readonlyPanel :: state where
  "readonlyPanel = constructor readonlyWorld"

definition briefcasePanel :: state where
  "briefcasePanel = constructor briefcaseWorld"

definition emptyPanel :: state where
  "emptyPanel = constructor emptyViewWorld"

definition thirdModelPanel :: state where
  "thirdModelPanel = run briefcasePanel [UserSelects 2]"

section \<open>Properties\<close>

subsection \<open>The offset\<close>

lemma magnitude_create_x: "magnitude (create s 0 0) = \<bar>s\<bar>"
  by (simp add: magnitude_def create_def)

lemma magnitude_defaultOffset: "magnitude defaultOffset = 50000"
  by (simp add: defaultOffset_def magnitude_create_x)

lemma getRangeBasedOffset_code [code]:
  "getRangeBasedOffset extents =
     (let len = maxLength extents in
      if len \<le> 0 then clone defaultOffset else create (max (len * 2) 50000) 0 0)"
  by (simp add: getRangeBasedOffset_def Let_def magnitude_defaultOffset)

lemma getRangeBasedOffset_degenerate:
  "maxLength e \<le> 0 \<Longrightarrow> getRangeBasedOffset e = create 50000 0 0"
  by (simp add: getRangeBasedOffset_def clone_def defaultOffset_def create_def)

lemma getRangeBasedOffset_positive:
  "0 < maxLength e \<Longrightarrow> getRangeBasedOffset e = create (max (maxLength e * 2) 50000) 0 0"
  by (simp add: getRangeBasedOffset_def Let_def magnitude_defaultOffset)

text \<open>
  C1, as stated, fails: the unit cube has largest dimension 1, which is strictly positive,
  and the offset computed for it has magnitude 50000, not 2.
\<close>

theorem C1_counterexample:
  "0 < maxLength unitCube \<and>
   magnitude (getRangeBasedOffset unitCube) = 50000 \<and>
   magnitude (getRangeBasedOffset unitCube) \<noteq> 2 * maxLength unitCube"
proof -
  have pos: "0 < maxLength unitCube"
    by (simp add: maxLength_def unitCube_def)
  have two: "maxLength unitCube = 1"
    by (simp add: maxLength_def unitCube_def)
  have "magnitude (getRangeBasedOffset unitCube) = 50000"
    by (simp add: getRangeBasedOffset_positive [OF pos] magnitude_create_x two)
  with pos two show ?thesis by simp
qed

text \<open>
  C1, amended: when the largest dimension \<open>L\<close> of the extents is strictly positive, the
  magnitude of the offset is the larger of \<open>2 * L\<close> and 50000 (so it is exactly \<open>2 * L\<close>
  if and only if \<open>L\<close> is at least 25000, and 50000 below that); when \<open>L\<close> is zero or
  negative, the magnitude is that of the default offset, which is 50000.
\<close>

theorem C1_offset_magnitude:
  "(0 < maxLength e \<longrightarrow> magnitude (getRangeBasedOffset e) = max (2 * maxLength e) 50000) \<and>
   (0 < maxLength e \<longrightarrow>
      (magnitude (getRangeBasedOffset e) = 2 * maxLength e) = (25000 \<le> maxLength e)) \<and>
   (maxLength e \<le> 0 \<longrightarrow> magnitude (getRangeBasedOffset e) = magnitude defaultOffset) \<and>
   magnitude defaultOffset = 50000"
proof -
  have a: "magnitude (getRangeBasedOffset e) = max (2 * maxLength e) 50000"
    if "0 < maxLength e"
    using that by (simp add: getRangeBasedOffset_positive magnitude_create_x mult.commute)
  have b: "magnitude (getRangeBasedOffset e) = magnitude defaultOffset"
    if "maxLength e \<le> 0"
    using that by (simp add: getRangeBasedOffset_degenerate magnitude_create_x
        magnitude_defaultOffset)
  have c: "(max (2 * maxLength e) 50000 = 2 * maxLength e) = (25000 \<le> maxLength e)"
    by (auto simp: max_def)
  from a b c show ?thesis
    by (simp add: magnitude_defaultOffset)
qed

theorem C1_offset_magnitude_witness:
  "0 < maxLength largeSite \<and> magnitude (getRangeBasedOffset largeSite) = 60000 \<and>
   magnitude (getRangeBasedOffset largeSite) = 2 * maxLength largeSite \<and>
   maxLength emptyRange \<le> 0 \<and> magnitude (getRangeBasedOffset emptyRange) = 50000"
proof -
  have m: "maxLength largeSite = 30000"
    by (simp add: maxLength_def largeSite_def)
  have n: "maxLength emptyRange = 0"
    by (simp add: maxLength_def emptyRange_def)
  from C1_offset_magnitude [of largeSite] C1_offset_magnitude [of emptyRange] show ?thesis
    by (simp add: m n)
qed


subsection \<open>The handlers, case by case\<close>

lemma world_setStatus [simp]: "world (setStatus msg s) = world s"
  by (simp add: setStatus_def)

lemma panel_setStatus [simp]: "panel (setStatus msg s) = (panel s)\<lparr>status := msg\<rparr>"
  by (simp add: setStatus_def)

lemma selectedModelId_nonempty: "selectedModelId s = Some m \<Longrightarrow> m \<noteq> ''''"
  by (auto simp: selectedModelId_def Let_def split: if_splits)

lemma getBriefcase_Some: "getBriefcase s = Some im \<Longrightarrow> im = world s"
  by (auto simp: getBriefcase_def Let_def split: if_splits)

lemma getBriefcase_None: "(getBriefcase s = None) = (\<not> isBriefcaseConnection (world s))"
  by (auto simp: getBriefcase_def Let_def split: if_splits)

lemma newCalls_append [simp]:
  "calls (world s') = calls (world s) @ cs \<Longrightarrow> newCalls s s' = cs"
  by (simp add: newCalls_def)

lemma newCalls_same [simp]: "world s' = world s \<Longrightarrow> newCalls s s' = []"
  by (simp add: newCalls_def)

lemma getSampleElementIds_eq:
  "getSampleElementIds w m =
     (sampleIds w m, w\<lparr>calls := calls w @ [CreateQueryReader sampleQuery [m]]\<rparr>)"
  by (simp add: sampleIds_def getSampleElementIds_def createQueryReader_def)

lemma sampleIds_scope [simp]: "sampleIds (editingScope_update f w) m = sampleIds w m"
  by (simp add: sampleIds_def getSampleElementIds_def createQueryReader_def)

lemma sampleIds_calls [simp]: "sampleIds (calls_update f w) m = sampleIds w m"
  by (simp add: sampleIds_def getSampleElementIds_def createQueryReader_def)

lemma getOffset_scope [simp]: "getOffset (editingScope_update f w) = getOffset w"
  by (simp add: getOffset_def)

lemma getOffset_calls [simp]: "getOffset (calls_update f w) = getOffset w"
  by (simp add: getOffset_def)

lemma moveSample_absent:
  "getBriefcase s = None \<or> selectedModelId s = None \<Longrightarrow>
   moveSample b s = setStatus ''Select a model and ensure the iModel is writable.'' s"
  by (auto simp: moveSample_def Let_def split: option.splits)

lemma moveSample_empty:
  assumes "getBriefcase s = Some imodel" and "selectedModelId s = Some m"
    and "sampleIds imodel m = []"
  shows "moveSample b s =
     setStatus ''No geometric elements were found in the selected model.''
       (s\<lparr>world := imodel\<lparr>editingScope := True,
            calls := calls imodel @ (if editingScope imodel then [] else [EnterEditingScope])
                       @ [CreateQueryReader sampleQuery [m]]\<rparr>\<rparr>)"
  using assms selectedModelId_nonempty [OF assms(2)]
  by (simp add: moveSample_def Let_def getSampleElementIds_eq enterEditingScope_def)

lemma moveSample_moves:
  assumes "getBriefcase s = Some imodel" and "selectedModelId s = Some m"
    and "sampleIds imodel m \<noteq> []"
  shows "moveSample b s =
     setStatus
       (if b then ''Moved sample geometry beyond the project extents while editing.''
        else ''Moved sample geometry back within the project extents without saving.'')
       (s\<lparr>panel := (panel s)\<lparr>lastOffset := Some (usedOffset s)\<rparr>,
          world := imodel\<lparr>editingScope := True,
            calls := calls imodel @ (if editingScope imodel then [] else [EnterEditingScope])
                       @ [CreateQueryReader sampleQuery [m],
                          TransformElements (sampleIds imodel m)
                            (Translation (if b then usedOffset s else negate (usedOffset s)))]\<rparr>\<rparr>)"
  using assms selectedModelId_nonempty [OF assms(2)] getBriefcase_Some [OF assms(1)]
  by (simp add: moveSample_def Let_def getSampleElementIds_eq enterEditingScope_def
      transformElements_def createTranslation_def usedOffset_def
      split: option.splits)


lemma translationsOf_append [simp]:
  "translationsOf (cs @ ds) = translationsOf cs @ translationsOf ds"
  by (induction cs rule: translationsOf.induct) simp_all

lemma calls_moveSample:
  "calls (world (moveSample b s)) = calls (world s) @
     (case (getBriefcase s, selectedModelId s) of
        (Some imodel, Some m) \<Rightarrow>
          (if editingScope imodel then [] else [EnterEditingScope])
          @ [CreateQueryReader sampleQuery [m]]
          @ (if sampleIds imodel m = [] then []
             else [TransformElements (sampleIds imodel m)
                     (Translation (if b then usedOffset s else negate (usedOffset s)))])
      | _ \<Rightarrow> [])"
proof (cases "getBriefcase s")
  case None
  then show ?thesis by (simp add: moveSample_absent)
next
  case (Some imodel)
  note im = this
  show ?thesis
  proof (cases "selectedModelId s")
    case None
    then show ?thesis by (simp add: moveSample_absent im)
  next
    case (Some m)
    show ?thesis
    proof (cases "sampleIds imodel m = []")
      case True
      then show ?thesis
        using getBriefcase_Some [OF im]
        by (simp add: moveSample_empty [OF im Some True] im Some)
    next
      case False
      then show ?thesis
        using getBriefcase_Some [OF im]
        by (simp add: moveSample_moves [OF im Some False] im Some)
    qed
  qed
qed

lemma lastOffset_moveSample:
  "lastOffset (panel (moveSample b s)) =
     (case (getBriefcase s, selectedModelId s) of
        (Some imodel, Some m) \<Rightarrow>
          if sampleIds imodel m = [] then lastOffset (panel s) else Some (usedOffset s)
      | _ \<Rightarrow> lastOffset (panel s))"
proof (cases "getBriefcase s")
  case None
  then show ?thesis by (simp add: moveSample_absent)
next
  case (Some imodel)
  note im = this
  show ?thesis
  proof (cases "selectedModelId s")
    case None
    then show ?thesis by (simp add: moveSample_absent im)
  next
    case (Some m)
    show ?thesis
    proof (cases "sampleIds imodel m = []")
      case True
      then show ?thesis
        by (simp add: moveSample_empty [OF im Some True] im Some)
    next
      case False
      then show ?thesis
        by (simp add: moveSample_moves [OF im Some False] im Some)
    qed
  qed
qed

lemma moveSample_translation:
  "translationsOf (newCalls s (moveSample b s)) = [] \<or>
   (translationsOf (newCalls s (moveSample b s)) =
      [if b then usedOffset s else negate (usedOffset s)] \<and>
    lastOffset (panel (moveSample b s)) = Some (usedOffset s))"
  by (auto simp: calls_moveSample lastOffset_moveSample split: option.splits)

lemma lastOffset_moveSample_kept:
  "lastOffset (panel s) = Some t \<Longrightarrow> lastOffset (panel (moveSample b s)) = Some t"
  by (simp add: lastOffset_moveSample usedOffset_def split: option.splits)


lemma toggleEditingScope_absent:
  "getBriefcase s = None \<Longrightarrow>
   toggleEditingScope s = setStatus ''Editing scope requires a writable briefcase.'' s"
  by (simp add: toggleEditingScope_def)

lemma toggleEditingScope_present:
  "getBriefcase s = Some imodel \<Longrightarrow>
   toggleEditingScope s =
     (if editingScope imodel
      then setStatus ''Editing scope ended.'' (s\<lparr>world := exitEditingScope imodel\<rparr>)
      else setStatus ''Editing scope is active.'' (s\<lparr>world := enterEditingScope imodel\<rparr>))"
  by (simp add: toggleEditingScope_def Let_def exitEditingScope_def enterEditingScope_def)

lemma saveAndRefresh_absent:
  "getBriefcase s = None \<or> selectedModelId s = None \<Longrightarrow>
   saveAndRefresh s = setStatus ''Select a model and ensure the iModel is writable.'' s"
  by (auto simp: saveAndRefresh_def Let_def split: option.splits)

lemma saveAndRefresh_present:
  assumes "getBriefcase s = Some imodel" and "selectedModelId s = Some m"
  shows "saveAndRefresh s =
     setStatus ''Saved the briefcase and refreshed tiles. Geometry outside project extents will stop requesting tiles.''
       (s\<lparr>world := refreshForModifiedModels
                      (saveChanges imodel ''Project extents tile example'') [m]\<rparr>)"
  using assms selectedModelId_nonempty [OF assms(2)]
  by (simp add: saveAndRefresh_def Let_def)

lemma requestTiles_absent:
  "selectedModelId s = None \<Longrightarrow>
   requestTiles s = setStatus ''Select a model before requesting tiles.'' s"
  by (simp add: requestTiles_def)

lemma requestTiles_present:
  assumes "selectedModelId s = Some m"
  shows "requestTiles s =
     setStatus ''Requested tiles for the modified model without saving.''
       (s\<lparr>world := refreshForModifiedModels (world s) [m]\<rparr>)"
  using assms selectedModelId_nonempty [OF assms]
  by (simp add: requestTiles_def)

lemma world_populateModels [simp]: "world (populateModels s) = world s"
  by (simp add: populateModels_def Let_def)

lemma lastOffset_populateModels [simp]:
  "lastOffset (panel (populateModels s)) = lastOffset (panel s)"
  by (simp add: populateModels_def Let_def)

lemma lastOffset_toggleEditingScope [simp]:
  "lastOffset (panel (toggleEditingScope s)) = lastOffset (panel s)"
  by (cases "getBriefcase s")
     (simp_all add: toggleEditingScope_absent toggleEditingScope_present)

lemma lastOffset_saveAndRefresh [simp]:
  "lastOffset (panel (saveAndRefresh s)) = lastOffset (panel s)"
  by (cases "getBriefcase s"; cases "selectedModelId s")
     (simp_all add: saveAndRefresh_absent saveAndRefresh_present)

lemma lastOffset_requestTiles [simp]:
  "lastOffset (panel (requestTiles s)) = lastOffset (panel s)"
  by (cases "selectedModelId s") (simp_all add: requestTiles_absent requestTiles_present)

lemma lastOffset_step_kept:
  "lastOffset (panel s) = Some t \<Longrightarrow> lastOffset (panel (step s e)) = Some t"
proof (cases e)
  case (Click b)
  assume "lastOffset (panel s) = Some t"
  then show ?thesis using Click
    by (cases b) (simp_all add: lastOffset_moveSample_kept)
qed (simp_all add: onViewChanged_def open_panel_def close_panel_def)

lemma lastOffset_run_kept:
  "lastOffset (panel s) = Some t \<Longrightarrow> lastOffset (panel (run s events)) = Some t"
  unfolding run_def
  by (induction events arbitrary: s) (simp_all add: lastOffset_step_kept)

subsection \<open>Without a writable briefcase\<close>

text \<open>
  C2, as stated, fails for the fifth button: \<open>requestTiles\<close> never looks at the
  connection. On a read-only connection whose view shows the model \<open>0x1\<close>, pressing
  "Request tiles without saving" asks the view manager to refresh the tiles of \<open>0x1\<close>,
  so the external state changes.
\<close>

theorem C2_counterexample:
  "getBriefcase readonlyPanel = None \<and>
   newCalls readonlyPanel (handler RequestTiles readonlyPanel) =
     [RefreshForModifiedModels [''0x1'']] \<and>
   world (handler RequestTiles readonlyPanel) \<noteq> world readonlyPanel"
  by code_simp

text \<open>
  C2, amended: when no writable briefcase connection is present, toggling the editing
  scope, moving the sample outside, saving and refreshing, and moving the sample back
  change nothing but the status text (the result is \<open>setStatus\<close> of a fixed message, which
  leaves the external state as it is). Requesting tiles does the same only when no model
  is selected; with a selected model it requests a tile refresh for exactly that model,
  and makes no other call.
\<close>

theorem C2_no_briefcase:
  assumes "getBriefcase s = None"
  shows "handler EditingButton s =
           setStatus ''Editing scope requires a writable briefcase.'' s \<and>
         handler MoveOutside s =
           setStatus ''Select a model and ensure the iModel is writable.'' s \<and>
         handler SaveButton s =
           setStatus ''Select a model and ensure the iModel is writable.'' s \<and>
         handler MoveBack s =
           setStatus ''Select a model and ensure the iModel is writable.'' s \<and>
         (selectedModelId s = None \<longrightarrow>
            handler RequestTiles s = setStatus ''Select a model before requesting tiles.'' s) \<and>
         (\<forall>m. selectedModelId s = Some m \<longrightarrow>
            handler RequestTiles s =
              setStatus ''Requested tiles for the modified model without saving.''
                (s\<lparr>world := (world s)\<lparr>calls := calls (world s) @
                                 [RefreshForModifiedModels [m]]\<rparr>\<rparr>)) \<and>
         (\<forall>msg. world (setStatus msg s) = world s \<and>
                panel (setStatus msg s) = (panel s)\<lparr>status := msg\<rparr>)"
  using assms
  by (simp add: toggleEditingScope_absent moveSample_absent saveAndRefresh_absent
      requestTiles_absent requestTiles_present refreshForModifiedModels_def)

theorem C2_no_briefcase_witness:
  "getBriefcase readonlyPanel = None \<and>
   world (handler EditingButton readonlyPanel) = world readonlyPanel \<and>
   world (handler MoveOutside readonlyPanel) = world readonlyPanel \<and>
   world (handler SaveButton readonlyPanel) = world readonlyPanel \<and>
   world (handler MoveBack readonlyPanel) = world readonlyPanel \<and>
   selectedModelId readonlyPanel = Some ''0x1'' \<and>
   calls (world (handler RequestTiles readonlyPanel)) = [RefreshForModifiedModels [''0x1'']]"
proof -
  have h: "getBriefcase readonlyPanel = None" by code_simp
  have m: "selectedModelId readonlyPanel = Some ''0x1''" by code_simp
  have c: "calls (world readonlyPanel) = []" by code_simp
  from C2_no_briefcase [OF h] h m c show ?thesis
    by (simp del: handler.simps)
qed

subsection \<open>Moving out and back\<close>

text \<open>
  C3: take a call \<open>moveSample(true)\<close> that reaches the transform call, then any sequence
  of events on the same panel (none, a change of the project extents or of anything else
  in the external state, other buttons), then a call \<open>moveSample(false)\<close> that reaches the
  transform call. Each of the two calls applies exactly one translation; the first is the
  offset \<open>t\<close> that the panel has cached since, and the second is \<open>negate t\<close>.
\<close>

theorem C3_inverse_translations:
  assumes first: "translationsOf (newCalls s (moveSample True s)) \<noteq> []"
    and between: "s' = run (moveSample True s) events"
    and second: "translationsOf (newCalls s' (moveSample False s')) \<noteq> []"
  shows "\<exists>t. translationsOf (newCalls s (moveSample True s)) = [t] \<and>
             lastOffset (panel s') = Some t \<and>
             translationsOf (newCalls s' (moveSample False s')) = [negate t]"
proof -
  from first moveSample_translation [of s True]
  have t1: "translationsOf (newCalls s (moveSample True s)) = [usedOffset s]"
    and l1: "lastOffset (panel (moveSample True s)) = Some (usedOffset s)"
    by auto
  from l1 between have l2: "lastOffset (panel s') = Some (usedOffset s)"
    by (simp add: lastOffset_run_kept)
  then have u: "usedOffset s' = usedOffset s"
    by (simp add: usedOffset_def)
  from second moveSample_translation [of s' False]
  have "translationsOf (newCalls s' (moveSample False s')) = [negate (usedOffset s')]"
    by auto
  with t1 l2 u show ?thesis by simp
qed


theorem C3_inverse_translations_witness:
  "translationsOf (newCalls briefcasePanel (moveSample True briefcasePanel)) \<noteq> [] \<and>
   translationsOf
     (newCalls (run (moveSample True briefcasePanel) [Environment shrunkWorld])
        (moveSample False (run (moveSample True briefcasePanel) [Environment shrunkWorld])))
     = [negate (create 60000 0 0)]"
proof -
  let ?s' = "run (moveSample True briefcasePanel) [Environment shrunkWorld]"
  have h1: "translationsOf (newCalls briefcasePanel (moveSample True briefcasePanel)) \<noteq> []"
    by code_simp
  have h3: "translationsOf (newCalls ?s' (moveSample False ?s')) \<noteq> []"
    by code_simp
  have l: "lastOffset (panel ?s') = Some (create 60000 0 0)"
    by code_simp
  from C3_inverse_translations [OF h1 refl h3] l h1 show ?thesis
    by auto
qed


subsection \<open>A model without sample elements\<close>

text \<open>
  C4: when the connection is writable, a model is selected and the sample query yields no
  identifier, \<open>moveSample\<close> (in either direction) changes nothing of the panel but the
  status, which becomes the no-elements message; the calls it has made are the scope
  entry (if no scope was active) and the query, and no transform call.
\<close>

theorem C4_no_elements:
  assumes "getBriefcase s = Some imodel" and "selectedModelId s = Some m"
    and "sampleIds imodel m = []"
  shows "panel (moveSample outside s) =
           (panel s)\<lparr>status := ''No geometric elements were found in the selected model.''\<rparr> \<and>
         newCalls s (moveSample outside s) =
           (if editingScope imodel then [] else [EnterEditingScope])
           @ [CreateQueryReader sampleQuery [m]] \<and>
         translationsOf (newCalls s (moveSample outside s)) = []"
proof -
  have w: "imodel = world s"
    using assms(1) by (rule getBriefcase_Some)
  have c: "calls (world (moveSample outside s)) = calls (world s) @
      (if editingScope imodel then [] else [EnterEditingScope])
      @ [CreateQueryReader sampleQuery [m]]"
    by (simp add: moveSample_empty [OF assms] w)
  have p: "panel (moveSample outside s) =
      (panel s)\<lparr>status := ''No geometric elements were found in the selected model.''\<rparr>"
    by (simp add: moveSample_empty [OF assms])
  from c have n: "newCalls s (moveSample outside s) =
      (if editingScope imodel then [] else [EnterEditingScope])
      @ [CreateQueryReader sampleQuery [m]]"
    by (rule newCalls_append)
  from p n show ?thesis by simp
qed

theorem C4_no_elements_witness:
  "getBriefcase thirdModelPanel = Some (world thirdModelPanel) \<and>
   selectedModelId thirdModelPanel = Some ''0x3'' \<and>
   sampleIds (world thirdModelPanel) ''0x3'' = [] \<and>
   status (panel (moveSample False thirdModelPanel)) =
     ''No geometric elements were found in the selected model.'' \<and>
   translationsOf (newCalls thirdModelPanel (moveSample False thirdModelPanel)) = []"
proof -
  have h1: "getBriefcase thirdModelPanel = Some (world thirdModelPanel)" by code_simp
  have h2: "selectedModelId thirdModelPanel = Some ''0x3''" by code_simp
  have h3: "sampleIds (world thirdModelPanel) ''0x3'' = []" by code_simp
  from C4_no_elements [OF h1 h2 h3, of False] h1 h2 h3 show ?thesis
    by simp
qed

subsection \<open>Toggling the editing scope\<close>

text \<open>
  C5: without a writable briefcase connection \<open>toggleEditingScope\<close> sets a status message
  and leaves the external state unchanged. With one, it makes exactly one call, exiting
  the scope if one is active and entering one otherwise, so that the scope state is
  flipped, and the status text reports the scope state that results.
\<close>

theorem C5_toggleEditingScope:
  "(getBriefcase s = None \<longrightarrow>
      toggleEditingScope s = setStatus ''Editing scope requires a writable briefcase.'' s \<and>
      world (toggleEditingScope s) = world s) \<and>
   (\<forall>imodel. getBriefcase s = Some imodel \<longrightarrow>
      world (toggleEditingScope s) =
        (if editingScope imodel then exitEditingScope imodel else enterEditingScope imodel) \<and>
      newCalls s (toggleEditingScope s) =
        [if editingScope imodel then ExitEditingScope else EnterEditingScope] \<and>
      editingScope (world (toggleEditingScope s)) = (\<not> editingScope imodel) \<and>
      panel (toggleEditingScope s) =
        (panel s)\<lparr>status :=
           (if editingScope (world (toggleEditingScope s)) then ''Editing scope is active.''
            else ''Editing scope ended.'')\<rparr>)"
proof -
  have a: "toggleEditingScope s = setStatus ''Editing scope requires a writable briefcase.'' s
      \<and> world (toggleEditingScope s) = world s"
    if "getBriefcase s = None"
    using that by (simp add: toggleEditingScope_absent)
  have b: "world (toggleEditingScope s) =
        (if editingScope imodel then exitEditingScope imodel else enterEditingScope imodel) \<and>
      newCalls s (toggleEditingScope s) =
        [if editingScope imodel then ExitEditingScope else EnterEditingScope] \<and>
      editingScope (world (toggleEditingScope s)) = (\<not> editingScope imodel) \<and>
      panel (toggleEditingScope s) =
        (panel s)\<lparr>status :=
           (if editingScope (world (toggleEditingScope s)) then ''Editing scope is active.''
            else ''Editing scope ended.'')\<rparr>"
    if "getBriefcase s = Some imodel" for imodel
    using that getBriefcase_Some [OF that]
    by (simp add: toggleEditingScope_present exitEditingScope_def enterEditingScope_def
        newCalls_def)
  from a b show ?thesis by blast
qed

theorem C5_toggleEditingScope_witness:
  "getBriefcase readonlyPanel = None \<and>
   world (toggleEditingScope readonlyPanel) = world readonlyPanel \<and>
   getBriefcase briefcasePanel = Some (world briefcasePanel) \<and>
   \<not> editingScope (world briefcasePanel) \<and>
   newCalls briefcasePanel (toggleEditingScope briefcasePanel) = [EnterEditingScope] \<and>
   status (panel (toggleEditingScope briefcasePanel)) = ''Editing scope is active.'' \<and>
   newCalls (toggleEditingScope briefcasePanel)
     (toggleEditingScope (toggleEditingScope briefcasePanel)) = [ExitEditingScope] \<and>
   status (panel (toggleEditingScope (toggleEditingScope briefcasePanel))) =
     ''Editing scope ended.''"
proof -
  let ?t = "toggleEditingScope briefcasePanel"
  have h0: "getBriefcase readonlyPanel = None" by code_simp
  have h1: "getBriefcase briefcasePanel = Some (world briefcasePanel)" by code_simp
  have h2: "getBriefcase ?t = Some (world ?t)" by code_simp
  have e1: "\<not> editingScope (world briefcasePanel)" by code_simp
  have e2: "editingScope (world ?t)" by code_simp
  from C5_toggleEditingScope [of readonlyPanel] C5_toggleEditingScope [of briefcasePanel]
    C5_toggleEditingScope [of ?t] h0 h1 h2 e1 e2
  show ?thesis by (simp add: exitEditingScope_def)
qed


subsection \<open>The preconditions of moving the sample\<close>

lemma editingScope_moveSample:
  assumes "getBriefcase s = Some imodel" and "selectedModelId s = Some m"
  shows "editingScope (world (moveSample b s))"
proof (cases "sampleIds imodel m = []")
  case True
  then show ?thesis by (simp add: moveSample_empty [OF assms True])
next
  case False
  then show ?thesis by (simp add: moveSample_moves [OF assms False])
qed

text \<open>
  C6: if the writable briefcase connection or the selected model identifier is absent,
  \<open>moveSample\<close> sets the error status and makes no external call (the external state is
  unchanged). If both are present and no editing scope is active, its first call enters
  an editing scope, the query comes second, and the scope is active when it returns.
\<close>

theorem C6_moveSample_preconditions:
  "((getBriefcase s = None \<or> selectedModelId s = None) \<longrightarrow>
      moveSample outside s =
        setStatus ''Select a model and ensure the iModel is writable.'' s \<and>
      world (moveSample outside s) = world s \<and>
      newCalls s (moveSample outside s) = []) \<and>
   (\<forall>imodel m. getBriefcase s = Some imodel \<and> selectedModelId s = Some m \<and>
        \<not> editingScope imodel \<longrightarrow>
      take 2 (newCalls s (moveSample outside s)) =
        [EnterEditingScope, CreateQueryReader sampleQuery [m]] \<and>
      editingScope (world (moveSample outside s)))"
proof -
  have a: "moveSample outside s =
        setStatus ''Select a model and ensure the iModel is writable.'' s \<and>
      world (moveSample outside s) = world s \<and>
      newCalls s (moveSample outside s) = []"
    if "getBriefcase s = None \<or> selectedModelId s = None"
    by (simp add: moveSample_absent [OF that])
  have b: "take 2 (newCalls s (moveSample outside s)) =
        [EnterEditingScope, CreateQueryReader sampleQuery [m]] \<and>
      editingScope (world (moveSample outside s))"
    if h: "getBriefcase s = Some imodel" "selectedModelId s = Some m" "\<not> editingScope imodel"
    for imodel m
  proof -
    have "newCalls s (moveSample outside s) =
        [EnterEditingScope, CreateQueryReader sampleQuery [m]]
        @ (if sampleIds imodel m = [] then []
           else [TransformElements (sampleIds imodel m)
                   (Translation (if outside then usedOffset s else negate (usedOffset s)))])"
      by (rule newCalls_append) (simp add: calls_moveSample h)
    then show ?thesis
      by (simp add: editingScope_moveSample [OF h(1,2)])
  qed
  from a b show ?thesis by blast
qed

theorem C6_moveSample_preconditions_witness:
  "getBriefcase readonlyPanel = None \<and>
   newCalls readonlyPanel (moveSample True readonlyPanel) = [] \<and>
   status (panel (moveSample True readonlyPanel)) =
     ''Select a model and ensure the iModel is writable.'' \<and>
   getBriefcase briefcasePanel = Some (world briefcasePanel) \<and>
   selectedModelId briefcasePanel = Some ''0x1'' \<and>
   \<not> editingScope (world briefcasePanel) \<and>
   take 2 (newCalls briefcasePanel (moveSample True briefcasePanel)) =
     [EnterEditingScope, CreateQueryReader sampleQuery [''0x1'']] \<and>
   editingScope (world (moveSample True briefcasePanel))"
proof -
  have h0: "getBriefcase readonlyPanel = None" by code_simp
  have h1: "getBriefcase briefcasePanel = Some (world briefcasePanel)" by code_simp
  have h2: "selectedModelId briefcasePanel = Some ''0x1''" by code_simp
  have h3: "\<not> editingScope (world briefcasePanel)" by code_simp
  from C6_moveSample_preconditions [of readonlyPanel True]
    C6_moveSample_preconditions [of briefcasePanel True] h0 h1 h2 h3
  show ?thesis by simp
qed

subsection \<open>Saving and refreshing\<close>

text \<open>
  C7: with a writable briefcase connection and a selected model, \<open>saveAndRefresh\<close> makes
  exactly two calls, in this order: it saves the changes with the description
  "Project extents tile example", then requests a tile refresh for the list holding
  exactly the selected model; the status then reports completion. If either is absent it
  sets the error status and makes no call.
\<close>

theorem C7_saveAndRefresh:
  "((getBriefcase s = None \<or> selectedModelId s = None) \<longrightarrow>
      saveAndRefresh s =
        setStatus ''Select a model and ensure the iModel is writable.'' s \<and>
      world (saveAndRefresh s) = world s \<and>
      newCalls s (saveAndRefresh s) = []) \<and>
   (\<forall>imodel m. getBriefcase s = Some imodel \<and> selectedModelId s = Some m \<longrightarrow>
      newCalls s (saveAndRefresh s) =
        [SaveChanges ''Project extents tile example'', RefreshForModifiedModels [m]] \<and>
      panel (saveAndRefresh s) =
        (panel s)\<lparr>status :=
           ''Saved the briefcase and refreshed tiles. Geometry outside project extents will stop requesting tiles.''\<rparr>)"
proof -
  have a: "saveAndRefresh s =
        setStatus ''Select a model and ensure the iModel is writable.'' s \<and>
      world (saveAndRefresh s) = world s \<and>
      newCalls s (saveAndRefresh s) = []"
    if "getBriefcase s = None \<or> selectedModelId s = None"
    by (simp add: saveAndRefresh_absent [OF that])
  have b: "newCalls s (saveAndRefresh s) =
        [SaveChanges ''Project extents tile example'', RefreshForModifiedModels [m]] \<and>
      panel (saveAndRefresh s) =
        (panel s)\<lparr>status :=
           ''Saved the briefcase and refreshed tiles. Geometry outside project extents will stop requesting tiles.''\<rparr>"
    if h: "getBriefcase s = Some imodel" "selectedModelId s = Some m" for imodel m
    using getBriefcase_Some [OF h(1)]
    by (simp add: saveAndRefresh_present [OF h] newCalls_def saveChanges_def
        refreshForModifiedModels_def)
  from a b show ?thesis by blast
qed

theorem C7_saveAndRefresh_witness:
  "selectedModelId emptyPanel = None \<and>
   newCalls emptyPanel (saveAndRefresh emptyPanel) = [] \<and>
   getBriefcase briefcasePanel = Some (world briefcasePanel) \<and>
   selectedModelId briefcasePanel = Some ''0x1'' \<and>
   newCalls briefcasePanel (saveAndRefresh briefcasePanel) =
     [SaveChanges ''Project extents tile example'', RefreshForModifiedModels [''0x1'']]"
proof -
  have h0: "selectedModelId emptyPanel = None" by code_simp
  have h1: "getBriefcase briefcasePanel = Some (world briefcasePanel)" by code_simp
  have h2: "selectedModelId briefcasePanel = Some ''0x1''" by code_simp
  from C7_saveAndRefresh [of emptyPanel] C7_saveAndRefresh [of briefcasePanel] h0 h1 h2
  show ?thesis by simp
qed

subsection \<open>The scope entered by a move that finds no element\<close>

text \<open>
  C9: with a writable connection, a selected model and no active editing scope,
  \<open>moveSample\<close> enters an editing scope and then runs the element query. When the query
  yields no identifier these are its only calls: the scope is not exited, and it is
  active when the handler returns with the no-elements status.
\<close>

theorem C9_scope_stays_entered:
  assumes "getBriefcase s = Some imodel" and "selectedModelId s = Some m"
    and "\<not> editingScope imodel"
  shows "take 2 (newCalls s (moveSample outside s)) =
           [EnterEditingScope, CreateQueryReader sampleQuery [m]] \<and>
         (sampleIds imodel m = [] \<longrightarrow>
            newCalls s (moveSample outside s) =
              [EnterEditingScope, CreateQueryReader sampleQuery [m]] \<and>
            editingScope (world (moveSample outside s)) \<and>
            status (panel (moveSample outside s)) =
              ''No geometric elements were found in the selected model.'')"
proof -
  have n: "newCalls s (moveSample outside s) =
      [EnterEditingScope, CreateQueryReader sampleQuery [m]]
      @ (if sampleIds imodel m = [] then []
         else [TransformElements (sampleIds imodel m)
                 (Translation (if outside then usedOffset s else negate (usedOffset s)))])"
    by (rule newCalls_append) (simp add: calls_moveSample assms)
  have e: "editingScope (world (moveSample outside s))"
    using assms(1,2) by (rule editingScope_moveSample)
  have st: "status (panel (moveSample outside s)) =
      ''No geometric elements were found in the selected model.''"
    if "sampleIds imodel m = []"
    by (simp add: moveSample_empty [OF assms(1,2) that])
  from n e st show ?thesis by simp
qed

theorem C9_scope_stays_entered_witness:
  "getBriefcase thirdModelPanel = Some (world thirdModelPanel) \<and>
   selectedModelId thirdModelPanel = Some ''0x3'' \<and>
   \<not> editingScope (world thirdModelPanel) \<and>
   sampleIds (world thirdModelPanel) ''0x3'' = [] \<and>
   newCalls thirdModelPanel (moveSample True thirdModelPanel) =
     [EnterEditingScope, CreateQueryReader sampleQuery [''0x3'']] \<and>
   editingScope (world (moveSample True thirdModelPanel))"
proof -
  have h1: "getBriefcase thirdModelPanel = Some (world thirdModelPanel)" by code_simp
  have h2: "selectedModelId thirdModelPanel = Some ''0x3''" by code_simp
  have h3: "\<not> editingScope (world thirdModelPanel)" by code_simp
  have h4: "sampleIds (world thirdModelPanel) ''0x3'' = []" by code_simp
  from C9_scope_stays_entered [OF h1 h2 h3, of True] h1 h2 h3 h4 show ?thesis
    by simp
qed

subsection \<open>An empty selection list\<close>

text \<open>
  C10: when the selection list has no option, the value of the select element is the
  empty string and \<open>selectedModelId\<close> is undefined; \<open>moveSample\<close>, \<open>saveAndRefresh\<close> and
  \<open>requestTiles\<close> then only set their precondition-failure status, and leave the external
  state unchanged.
\<close>

theorem C10_empty_selection_list:
  assumes "options (modelSelect (panel s)) = []"
  shows "select_value (modelSelect (panel s)) = '''' \<and>
         selectedModelId s = None \<and>
         moveSample outside s =
           setStatus ''Select a model and ensure the iModel is writable.'' s \<and>
         saveAndRefresh s =
           setStatus ''Select a model and ensure the iModel is writable.'' s \<and>
         requestTiles s = setStatus ''Select a model before requesting tiles.'' s \<and>
         world (moveSample outside s) = world s \<and>
         world (saveAndRefresh s) = world s \<and>
         world (requestTiles s) = world s"
proof -
  have v: "select_value (modelSelect (panel s)) = ''''"
    using assms by (simp add: select_value_def split: option.splits)
  then have m: "selectedModelId s = None"
    by (simp add: selectedModelId_def)
  from v m show ?thesis
    by (simp add: moveSample_absent saveAndRefresh_absent requestTiles_absent)
qed

theorem C10_empty_selection_list_witness:
  "options (modelSelect (panel emptyPanel)) = [] \<and>
   isBriefcaseConnection (world emptyPanel) \<and>
   selectedModelId emptyPanel = None \<and>
   status (panel (moveSample True emptyPanel)) =
     ''Select a model and ensure the iModel is writable.'' \<and>
   status (panel (requestTiles emptyPanel)) = ''Select a model before requesting tiles.'' \<and>
   world (saveAndRefresh emptyPanel) = world emptyPanel"
proof -
  have h: "options (modelSelect (panel emptyPanel)) = []" by code_simp
  have b: "isBriefcaseConnection (world emptyPanel)" by code_simp
  from C10_empty_selection_list [OF h, of True] h b show ?thesis
    by simp
qed

subsection \<open>Translations stay on the x-axis\<close>

lemma onXAxis_defaultOffset: "onXAxis defaultOffset"
  by (simp add: onXAxis_def defaultOffset_def create_def)

lemma onXAxis_getRangeBasedOffset: "onXAxis (getRangeBasedOffset e)"
  by (simp add: onXAxis_def getRangeBasedOffset_def Let_def clone_def defaultOffset_def
      create_def)

lemma onXAxis_negate: "onXAxis v \<Longrightarrow> onXAxis (negate v)"
  by (simp add: onXAxis_def negate_def create_def)

lemma onXAxis_usedOffset:
  "\<forall>t. lastOffset (panel s) = Some t \<longrightarrow> onXAxis t \<Longrightarrow> onXAxis (usedOffset s)"
  by (simp add: usedOffset_def getOffset_def onXAxis_getRangeBasedOffset split: option.splits)

lemma lastOffset_step:
  "lastOffset (panel (step s e)) = lastOffset (panel s) \<or>
   lastOffset (panel (step s e)) = Some (usedOffset s)"
proof (cases e)
  case (Click b)
  then show ?thesis
    by (cases b) (auto simp: lastOffset_moveSample split: option.splits)
qed (simp_all add: onViewChanged_def open_panel_def close_panel_def)

lemma calls_toggleEditingScope:
  "calls (world (toggleEditingScope s)) = calls (world s) @
     (case getBriefcase s of
        None \<Rightarrow> []
      | Some imodel \<Rightarrow> [if editingScope imodel then ExitEditingScope else EnterEditingScope])"
proof (cases "getBriefcase s")
  case None
  then show ?thesis by (simp add: toggleEditingScope_absent)
next
  case (Some imodel)
  then show ?thesis
    using getBriefcase_Some [OF Some]
    by (simp add: toggleEditingScope_present exitEditingScope_def enterEditingScope_def)
qed

lemma calls_saveAndRefresh:
  "calls (world (saveAndRefresh s)) = calls (world s) @
     (case (getBriefcase s, selectedModelId s) of
        (Some imodel, Some m) \<Rightarrow>
          [SaveChanges ''Project extents tile example'', RefreshForModifiedModels [m]]
      | _ \<Rightarrow> [])"
proof (cases "getBriefcase s")
  case None
  then show ?thesis by (simp add: saveAndRefresh_absent)
next
  case (Some imodel)
  note im = this
  show ?thesis
  proof (cases "selectedModelId s")
    case None
    then show ?thesis by (simp add: saveAndRefresh_absent im)
  next
    case (Some m)
    then show ?thesis
      using getBriefcase_Some [OF im]
      by (simp add: saveAndRefresh_present [OF im Some] im saveChanges_def
          refreshForModifiedModels_def)
  qed
qed

lemma calls_requestTiles:
  "calls (world (requestTiles s)) = calls (world s) @
     (case selectedModelId s of None \<Rightarrow> [] | Some m \<Rightarrow> [RefreshForModifiedModels [m]])"
  by (cases "selectedModelId s")
     (simp_all add: requestTiles_absent requestTiles_present refreshForModifiedModels_def)

lemma calls_step:
  assumes "\<forall>t. lastOffset (panel s) = Some t \<longrightarrow> onXAxis t"
  shows "\<exists>cs. calls (world (step s e)) = calls (world s) @ cs \<and>
              (\<forall>t\<in>set (translationsOf cs). onXAxis t)"
proof -
  have u: "onXAxis (usedOffset s)" "onXAxis (negate (usedOffset s))"
    using assms by (simp_all add: onXAxis_usedOffset onXAxis_negate)
  show ?thesis
  proof (cases e)
    case (Click b)
    show ?thesis
    proof (cases b)
      case EditingButton
      then show ?thesis using Click
        by (simp add: calls_toggleEditingScope split: option.splits)
    next
      case MoveOutside
      then show ?thesis using Click u
        by (simp add: calls_moveSample split: option.splits)
    next
      case SaveButton
      then show ?thesis using Click
        by (simp add: calls_saveAndRefresh split: option.splits)
    next
      case MoveBack
      then show ?thesis using Click u
        by (simp add: calls_moveSample split: option.splits)
    next
      case RequestTiles
      then show ?thesis using Click
        by (simp add: calls_requestTiles split: option.splits)
    qed
  qed (simp_all add: onViewChanged_def open_panel_def close_panel_def)
qed

lemma lastOffset_step_onXAxis:
  assumes "\<forall>t. lastOffset (panel s) = Some t \<longrightarrow> onXAxis t"
  shows "\<forall>t. lastOffset (panel (step s e)) = Some t \<longrightarrow> onXAxis t"
  using assms lastOffset_step [of s e] onXAxis_usedOffset [OF assms]
  by auto

lemma calls_run:
  assumes "\<forall>t. lastOffset (panel s) = Some t \<longrightarrow> onXAxis t"
  shows "\<exists>cs. calls (world (run s events)) = calls (world s) @ cs \<and>
              (\<forall>t\<in>set (translationsOf cs). onXAxis t)"
  using assms
proof (induction events arbitrary: s)
  case Nil
  then show ?case by (simp add: run_def)
next
  case (Cons e events)
  from calls_step [OF Cons.prems, of e] obtain cs1 where
    c1: "calls (world (step s e)) = calls (world s) @ cs1"
    and t1: "\<forall>t\<in>set (translationsOf cs1). onXAxis t"
    by blast
  from Cons.IH [OF lastOffset_step_onXAxis [OF Cons.prems, of e]] obtain cs2 where
    c2: "calls (world (run (step s e) events)) = calls (world (step s e)) @ cs2"
    and t2: "\<forall>t\<in>set (translationsOf cs2). onXAxis t"
    by blast
  have "calls (world (run s (e # events))) = calls (world s) @ (cs1 @ cs2)"
    using c1 c2 by (simp add: run_def)
  moreover have "\<forall>t\<in>set (translationsOf (cs1 @ cs2)). onXAxis t"
    using t1 t2 by auto
  ultimately show ?case by blast
qed

lemma lastOffset_constructor [simp]: "lastOffset (panel (constructor w)) = None"
  by (simp add: constructor_def Let_def)

text \<open>
  C8: the default offset and every range-based offset have zero y and z components, and
  so has every translation that a panel applies in its life: whatever the events after
  its construction, each translation passed to a transform call since then lies on the
  x-axis.
\<close>

theorem C8_translations_on_x_axis:
  "vec_y defaultOffset = 0 \<and> vec_z defaultOffset = 0 \<and>
   vec_y (getRangeBasedOffset extents) = 0 \<and> vec_z (getRangeBasedOffset extents) = 0 \<and>
   (\<forall>t\<in>set (translationsOf (newCalls (constructor w) (run (constructor w) events))).
      vec_y t = 0 \<and> vec_z t = 0)"
proof -
  have "\<forall>t. lastOffset (panel (constructor w)) = Some t \<longrightarrow> onXAxis t"
    by simp
  from calls_run [OF this, of events] obtain cs where
    c: "calls (world (run (constructor w) events)) = calls (world (constructor w)) @ cs"
    and t: "\<forall>t\<in>set (translationsOf cs). onXAxis t"
    by blast
  from c have "newCalls (constructor w) (run (constructor w) events) = cs"
    by (rule newCalls_append)
  with t onXAxis_defaultOffset onXAxis_getRangeBasedOffset [of extents] show ?thesis
    by (simp add: onXAxis_def)
qed

theorem C8_translations_on_x_axis_witness:
  "translationsOf (newCalls (constructor briefcaseWorld)
     (run (constructor briefcaseWorld)
        [Click MoveBack, Environment shrunkWorld, Click MoveOutside, Click MoveBack])) =
     [create (- 60000) 0 0, create 60000 0 0, create (- 60000) 0 0] \<and>
   list_all onXAxis
     (translationsOf (newCalls (constructor briefcaseWorld)
        (run (constructor briefcaseWorld)
           [Click MoveBack, Environment shrunkWorld, Click MoveOutside, Click MoveBack])))"
proof -
  have e: "translationsOf (newCalls (constructor briefcaseWorld)
     (run (constructor briefcaseWorld)
        [Click MoveBack, Environment shrunkWorld, Click MoveOutside, Click MoveBack])) =
     [create (- 60000) 0 0, create 60000 0 0, create (- 60000) 0 0]"
    by code_simp
  from C8_translations_on_x_axis [of largeSite briefcaseWorld
      "[Click MoveBack, Environment shrunkWorld, Click MoveOutside, Click MoveBack]"]
  have "list_all onXAxis
     (translationsOf (newCalls (constructor briefcaseWorld)
        (run (constructor briefcaseWorld)
           [Click MoveBack, Environment shrunkWorld, Click MoveOutside, Click MoveBack])))"
    unfolding list_all_iff onXAxis_def by blast
  with e show ?thesis by blast
qed


end
